theory Spec2Isabelle
  imports Complex_Main
begin

section \<open>Values that cross the sandbox boundary\<close>

text \<open>
  The host page (\<^verbatim>\<open>post-process-2.js\<close>) and the sandboxed iframe exchange data only through
  \<^verbatim>\<open>postMessage\<close>, so every value the host sees is a structured clone: a primitive or a
  plain object. Numbers are restricted to integers here (no claim depends on fractions or
  NaN). Functions cannot be cloned and therefore never occur.
\<close>

datatype jsval =
    JUndefined
  | JNull
  | JBool bool
  | JNum int
  | JStr string
  | JObj "(string \<times> jsval) list"

text \<open>JavaScript's truthiness, as used by \<^verbatim>\<open>event.data && ...\<close> and \<^verbatim>\<open>if (event.data.error)\<close>.\<close>

fun truthy :: "jsval \<Rightarrow> bool" where
  "truthy JUndefined = False"
| "truthy JNull = False"
| "truthy (JBool b) = b"
| "truthy (JNum n) = (n \<noteq> 0)"
| "truthy (JStr s) = (s \<noteq> [])"
| "truthy (JObj fs) = True"

text \<open>
  Property read \<^verbatim>\<open>v.k\<close> for the keys the code reads (\<^verbatim>\<open>type\<close>, \<^verbatim>\<open>error\<close>, \<^verbatim>\<open>hash\<close>,
  \<^verbatim>\<open>message\<close>): a missing key and every primitive give \<^verbatim>\<open>undefined\<close>. The code reads
  properties of \<^verbatim>\<open>event.data\<close> only behind the truthiness test, so the read on
  \<^verbatim>\<open>null\<close> or \<^verbatim>\<open>undefined\<close> (which throws) is not reached there.
\<close>

fun get_prop :: "jsval \<Rightarrow> string \<Rightarrow> jsval" where
  "get_prop (JObj fs) k = (case map_of fs k of None \<Rightarrow> JUndefined | Some v \<Rightarrow> v)"
| "get_prop v k = JUndefined"

text \<open>\<^verbatim>\<open>new Error(x)\<close>: the error object built from the argument \<open>x\<close>.\<close>

datatype js_error = Error jsval

section \<open>The host side of one sandbox run: \<^verbatim>\<open>executeInSandbox\<close>\<close>

text \<open>
  The promise returned by \<^verbatim>\<open>executeInSandbox\<close>. \<^verbatim>\<open>resolve\<close> and \<^verbatim>\<open>reject\<close> settle a pending
  promise and do nothing on a settled one.
\<close>

datatype promise_state = Pending | Fulfilled jsval | Rejected js_error

fun resolve :: "promise_state \<Rightarrow> jsval \<Rightarrow> promise_state" where
  "resolve Pending v = Fulfilled v"
| "resolve p v = p"

fun reject :: "promise_state \<Rightarrow> js_error \<Rightarrow> promise_state" where
  "reject Pending e = Rejected e"
| "reject p e = p"

text \<open>
  The timer made by \<^verbatim>\<open>setTimeout(..., 5000)\<close>: armed with the milliseconds still to run,
  cleared by \<^verbatim>\<open>clearTimeout\<close>, or fired. \<^verbatim>\<open>clearTimeout\<close> on a timer that has fired does
  nothing.
\<close>

datatype timer_state = Armed nat | Cleared | Fired

fun clearTimeout :: "timer_state \<Rightarrow> timer_state" where
  "clearTimeout (Armed n) = Cleared"
| "clearTimeout t = t"

fun is_armed :: "timer_state \<Rightarrow> bool" where
  "is_armed (Armed n) = True"
| "is_armed t = False"

text \<open>
  What one call of \<^verbatim>\<open>executeInSandbox\<close> owns: its promise, its timer, whether its
  \<^verbatim>\<open>handleMessage\<close> is installed on \<^verbatim>\<open>window\<close>, and the object URL made by
  \<^verbatim>\<open>URL.createObjectURL(blob)\<close> (\<open>Some js\<close>: the URL of the blob whose document embeds the
  script text \<open>js\<close> is live; the source never calls \<^verbatim>\<open>URL.revokeObjectURL\<close>).
\<close>

record run_state =
  promise :: promise_state
  timer :: timer_state
  listener :: bool
  object_url :: "string option"

text \<open>
  A window reference (\<^verbatim>\<open>event.source\<close>, \<^verbatim>\<open>sandbox.contentWindow\<close>): \<open>None\<close> is
  \<^verbatim>\<open>null\<close>, \<open>Some n\<close> the window numbered \<open>n\<close>. The source compares them with \<^verbatim>\<open>!==\<close>.
\<close>

type_synonym windowref = "nat option"

text \<open>
  What the event loop hands to the run: a \<^verbatim>\<open>message\<close> event on \<^verbatim>\<open>window\<close> with its
  \<^verbatim>\<open>source\<close> and \<^verbatim>\<open>data\<close>, or the passing of some milliseconds. The timer is idealised:
  its callback runs in the step in which its delay has run out.
\<close>

datatype event = Message windowref jsval | Elapse nat

definition timeout_error :: js_error where
  "timeout_error = Error (JStr ''Script execution timed out (5s limit)'')"

text \<open>Lines 72-75 and 94-154: the state right after the executor has run.\<close>

definition executeInSandbox :: "string \<Rightarrow> run_state" where
  "executeInSandbox fingerprintJs =
     \<lparr>promise = Pending, timer = Armed 5000, listener = True,
      object_url = Some fingerprintJs\<rparr>"

text \<open>Lines 73-75: the timer's callback only rejects.\<close>

definition timeout_callback :: "run_state \<Rightarrow> run_state" where
  "timeout_callback s = s\<lparr>promise := reject (promise s) timeout_error\<rparr>"

text \<open>Lines 78-92. \<open>cw\<close> is \<^verbatim>\<open>sandbox.contentWindow\<close>.\<close>

definition handleMessage :: "windowref \<Rightarrow> run_state \<Rightarrow> windowref \<Rightarrow> jsval \<Rightarrow> run_state" where
  "handleMessage cw s src d =
     (if src \<noteq> cw then s
      else
        let s1 = s\<lparr>timer := clearTimeout (timer s), listener := False\<rparr>
        in if truthy d \<and> get_prop d ''type'' = JStr ''fingerprint-result''
           then (if truthy (get_prop d ''error'')
                 then s1\<lparr>promise := reject (promise s1) (Error (get_prop d ''error''))\<rparr>
                 else s1\<lparr>promise := resolve (promise s1) (get_prop d ''hash'')\<rparr>)
           else s1)"

fun step :: "windowref \<Rightarrow> run_state \<Rightarrow> event \<Rightarrow> run_state" where
  "step cw s (Message src d) = (if listener s then handleMessage cw s src d else s)"
| "step cw s (Elapse k) =
     (case timer s of
        Armed n \<Rightarrow> if n \<le> k then timeout_callback (s\<lparr>timer := Fired\<rparr>)
                   else s\<lparr>timer := Armed (n - k)\<rparr>
      | Cleared \<Rightarrow> s
      | Fired \<Rightarrow> s)"

definition run :: "windowref \<Rightarrow> run_state \<Rightarrow> event list \<Rightarrow> run_state" where
  "run cw s evs = foldl (step cw) s evs"

text \<open>The milliseconds that pass in a sequence of events.\<close>

fun elapsed :: "event list \<Rightarrow> nat" where
  "elapsed [] = 0"
| "elapsed (Elapse k # evs) = k + elapsed evs"
| "elapsed (Message src d # evs) = elapsed evs"

text \<open>An event that is not a message from the window \<open>cw\<close>.\<close>

fun not_from :: "windowref \<Rightarrow> event \<Rightarrow> bool" where
  "not_from cw (Message src d) = (src \<noteq> cw)"
| "not_from cw (Elapse k) = True"

text \<open>Lines 132-135 and 137-140: the two messages the sandbox document sends.\<close>

definition result_message :: "jsval \<Rightarrow> jsval" where
  "result_message h = JObj [(''type'', JStr ''fingerprint-result''), (''hash'', h)]"

definition error_message :: "jsval \<Rightarrow> jsval" where
  "error_message m = JObj [(''type'', JStr ''fingerprint-result''), (''error'', m)]"

section \<open>The sandbox document (lines 97-150)\<close>

text \<open>
  The document loaded into the iframe runs two scripts: a classic script that installs
  the guards (lines 102-113), then a module script that holds the untrusted text inside a
  \<^verbatim>\<open>try\<close> block and reports through \<^verbatim>\<open>window.parent.postMessage\<close> (lines 116-148).

  The iframe's global object is a map from property names to what they hold: a function
  the platform provides, a function that throws \<^verbatim>\<open>new Error(msg)\<close> when called,
  \<^verbatim>\<open>null\<close>, or a reference to another window.
\<close>

datatype gval = GNative | GThrower string | GNull | GWindow nat

type_synonym global_object = "string \<rightharpoonup> gval"

text \<open>
  What an assignment \<^verbatim>\<open>window.k = v\<close> does is the platform's choice per property, so it
  is a parameter: the write takes effect, is silently dropped (a read-only property in a
  non-strict script), or throws.
\<close>

datatype write_policy = Writable | Ignored | Throwing

definition assign ::
  "(string \<Rightarrow> write_policy) \<Rightarrow> global_object \<Rightarrow> string \<Rightarrow> gval \<Rightarrow> global_object option" where
  "assign pol w k v =
     (case pol k of
        Writable \<Rightarrow> Some (w(k \<mapsto> v))
      | Ignored \<Rightarrow> Some w
      | Throwing \<Rightarrow> None)"

text \<open>
  Lines 102-113. The assignment to \<^verbatim>\<open>window.eval\<close> stands outside the \<^verbatim>\<open>try\<close>: if it
  throws, the script ends there. The two assignments inside the \<^verbatim>\<open>try\<close> stop at the
  first that throws, and the \<^verbatim>\<open>catch\<close> swallows the exception.
\<close>

definition guard_script :: "(string \<Rightarrow> write_policy) \<Rightarrow> global_object \<Rightarrow> global_object" where
  "guard_script pol w =
     (case assign pol w ''eval'' (GThrower ''eval() is not allowed'') of
        None \<Rightarrow> w
      | Some w1 \<Rightarrow>
          (case assign pol w1 ''parent'' GNull of
             None \<Rightarrow> w1
           | Some w2 \<Rightarrow>
               (case assign pol w2 ''top'' GNull of
                  None \<Rightarrow> w2
                | Some w3 \<Rightarrow> w3)))"

text \<open>A global that has been replaced by a function that throws when it is called.\<close>

fun intercepted :: "gval option \<Rightarrow> bool" where
  "intercepted (Some (GThrower m)) = True"
| "intercepted b = False"

text \<open>A global that still refers to a window: a message can be posted through it.\<close>

fun is_window :: "gval option \<Rightarrow> bool" where
  "is_window (Some (GWindow h)) = True"
| "is_window b = False"

text \<open>
  The Window interface of the HTML standard declares \<^verbatim>\<open>top\<close> as
  \<^verbatim>\<open>[LegacyUnforgeable] readonly\<close> and \<^verbatim>\<open>parent\<close> as \<^verbatim>\<open>[Replaceable] readonly\<close>;
  \<^verbatim>\<open>eval\<close> is an ordinary writable property. So the write to \<^verbatim>\<open>top\<close> is dropped and the
  writes to \<^verbatim>\<open>parent\<close> and \<^verbatim>\<open>eval\<close> take effect.
\<close>

definition standard_policy :: "string \<Rightarrow> write_policy" where
  "standard_policy k = (if k = ''top'' then Ignored else Writable)"

text \<open>A fresh iframe embedded by the host window \<open>0\<close>.\<close>

definition fresh_globals :: global_object where
  "fresh_globals =
     [''eval'' \<mapsto> GNative, ''Function'' \<mapsto> GNative,
      ''parent'' \<mapsto> GWindow 0, ''top'' \<mapsto> GWindow 0]"

text \<open>
  The untrusted text is spliced into the module script's \<^verbatim>\<open>try\<close> block and runs in the
  iframe's global object, before the document's own reporting code. Only what it does
  there matters to the document: the module does not parse (nothing runs), the text
  throws, it never finishes, or it finishes and leaves \<^verbatim>\<open>runFingerprinting\<close> bound or
  unbound; and, when that is a function, what the call does. Before any of that the text
  can re-assign a global from another one, \<^verbatim>\<open>window.k = window.k'\<close> (\<open>Assigns k k'\<close>), for
  example \<^verbatim>\<open>window.parent = window.top\<close>. A thrown \<^verbatim>\<open>new Error(msg)\<close> is the object
  \<open>new_Error msg\<close>.

  The text shares the block of the \<^verbatim>\<open>try\<close> with the reporting code, so a text that
  shadows a name the code uses (\<^verbatim>\<open>window\<close>, \<^verbatim>\<open>Error\<close>, the \<^verbatim>\<open>then\<close> and \<^verbatim>\<open>catch\<close> of
  promises) can make it send anything or nothing; such texts are outside this type. What
  a text posts to the host by itself is not part of this type either: the run sees it as
  message events from the sandbox window, and the statements below say what they assume
  about those events.
\<close>

datatype settle = Fulfils jsval | Rejects jsval | NeverSettles

datatype call_result =
    CallThrows jsval
  | CallDiverges
  | ReturnsValue jsval
  | ReturnsPromise settle

datatype entry_point = NotAFunction | Callable call_result

datatype script =
    Unparsable
  | BodyThrows jsval
  | BodyDiverges
  | BodyCompletes entry_point
  | Assigns string string script

text \<open>A text that re-assigns no global.\<close>

fun rebinds_nothing :: "script \<Rightarrow> bool" where
  "rebinds_nothing (Assigns k k' sc) = False"
| "rebinds_nothing sc = True"

definition new_Error :: "string \<Rightarrow> jsval" where
  "new_Error msg = JObj [(''message'', JStr msg)]"

fun is_string :: "jsval \<Rightarrow> bool" where
  "is_string (JStr s) = True"
| "is_string v = False"

fun is_nullish :: "jsval \<Rightarrow> bool" where
  "is_nullish JUndefined = True"
| "is_nullish JNull = True"
| "is_nullish v = False"

text \<open>
  The TypeErrors the engine raises for \<^verbatim>\<open>x.then(...)\<close> on a value without a callable
  \<^verbatim>\<open>then\<close> and for a property read on \<^verbatim>\<open>null\<close>. Their wording is the engine's; V8's is
  used.
\<close>

definition not_a_function_error :: jsval where
  "not_a_function_error = new_Error ''runFingerprinting(...).then is not a function''"

definition null_property_error :: jsval where
  "null_property_error = new_Error ''Cannot read properties of null''"

text \<open>
  The TypeError of an assignment to a property that cannot be written: module code is
  strict, so the assignment that a non-strict script drops throws here.
\<close>

definition read_only_error :: jsval where
  "read_only_error = new_Error ''Cannot assign to read only property''"

definition entry_point_missing :: string where
  "entry_point_missing = ''runFingerprinting() function not found in fingerprinter.js''"

definition invalid_result_type :: string where
  "invalid_result_type = ''runFingerprinting() must return a string''"

text \<open>\<^verbatim>\<open>error.message\<close> on a caught value: a TypeError (\<open>None\<close>) on \<^verbatim>\<open>null\<close> and \<^verbatim>\<open>undefined\<close>.\<close>

definition caught_message :: "jsval \<Rightarrow> jsval option" where
  "caught_message e = (if is_nullish e then None else Some (get_prop e ''message''))"

text \<open>
  Lines 137-140 and 143-146, the two \<^verbatim>\<open>catch\<close> handlers: the messages that reach the
  host. An exception inside the handler (\<^verbatim>\<open>window.parent\<close> is \<^verbatim>\<open>null\<close>, or the caught
  value has no properties) is not caught by anything, and no message is sent.
\<close>

definition catch_post :: "global_object \<Rightarrow> jsval \<Rightarrow> jsval list" where
  "catch_post w e =
     (case caught_message e of
        None \<Rightarrow> []
      | Some m \<Rightarrow> if is_window (w ''parent'') then [error_message m] else [])"

text \<open>Lines 126-135, the \<^verbatim>\<open>then\<close> callback: \<open>Inl\<close> is what it throws, \<open>Inr\<close> what it posts.\<close>

definition then_callback :: "global_object \<Rightarrow> jsval \<Rightarrow> jsval + jsval list" where
  "then_callback w result =
     (if \<not> is_string result then Inl (new_Error invalid_result_type)
      else if is_window (w ''parent'') then Inr [result_message result]
      else Inl null_property_error)"

text \<open>Lines 126-141: \<^verbatim>\<open>runFingerprinting().then(...).catch(...)\<close> on a promise.\<close>

definition promise_chain :: "global_object \<Rightarrow> settle \<Rightarrow> jsval list" where
  "promise_chain w st =
     (case st of
        Fulfils v \<Rightarrow> (case then_callback w v of Inl e \<Rightarrow> catch_post w e | Inr ms \<Rightarrow> ms)
      | Rejects e \<Rightarrow> catch_post w e
      | NeverSettles \<Rightarrow> [])"

text \<open>
  Lines 116-148: the messages the module script sends to the host, given the platform and
  the global object the guards left behind. The untrusted text of line 119 runs first and
  may re-assign globals; the reporting code of lines 122-146 then reads \<^verbatim>\<open>window.parent\<close>
  from the global object as the text left it.
\<close>

fun module_script :: "(string \<Rightarrow> write_policy) \<Rightarrow> global_object \<Rightarrow> script \<Rightarrow> jsval list" where
  "module_script pol w Unparsable = []"
| "module_script pol w (BodyThrows e) = catch_post w e"
| "module_script pol w BodyDiverges = []"
| "module_script pol w (BodyCompletes NotAFunction) = catch_post w (new_Error entry_point_missing)"
| "module_script pol w (BodyCompletes (Callable r)) =
     (case r of
        CallThrows e \<Rightarrow> catch_post w e
      | CallDiverges \<Rightarrow> []
      | ReturnsValue v \<Rightarrow>
          catch_post w (if is_nullish v then null_property_error else not_a_function_error)
      | ReturnsPromise st \<Rightarrow> promise_chain w st)"
| "module_script pol w (Assigns k k' sc) =
     (case pol k of
        Writable \<Rightarrow> module_script pol (w(k := w k')) sc
      | Ignored \<Rightarrow> catch_post w read_only_error
      | Throwing \<Rightarrow> catch_post w read_only_error)"

text \<open>The whole document: the guards, then the module script.\<close>

definition sandboxHtml :: "(string \<Rightarrow> write_policy) \<Rightarrow> global_object \<Rightarrow> script \<Rightarrow> jsval list" where
  "sandboxHtml pol w sc = module_script pol (guard_script pol w) sc"

text \<open>The document's messages as events of the run: they come from \<open>cw\<close>.\<close>

definition deliver :: "windowref \<Rightarrow> jsval list \<Rightarrow> event list" where
  "deliver cw ms = map (Message cw) ms"

section \<open>The page controller: validation, submit and results\<close>

text \<open>
  Strings are sequences of 8-bit characters. \<^verbatim>\<open>String.prototype.trim\<close> strips white space
  and line terminators; among the characters below 256 these are TAB, LF, VT, FF, CR,
  SPACE and NBSP.
\<close>

definition is_whitespace :: "char \<Rightarrow> bool" where
  "is_whitespace c = (of_char c \<in> {9, 10, 11, 12, 13, 32, 160 :: nat})"

definition trim :: "string \<Rightarrow> string" where
  "trim s = rev (dropWhile is_whitespace (rev (dropWhile is_whitespace s)))"

text \<open>The marks U+2713 and U+2717 of the status lines, as their UTF-8 bytes.\<close>

definition check_mark :: string where
  "check_mark = map char_of [226, 156, 147 :: nat]"

definition cross_mark :: string where
  "cross_mark = map char_of [226, 156, 151 :: nat]"

text \<open>Decimal digits of a number, for the string conversion of a value.\<close>

fun decimal :: "nat \<Rightarrow> string" where
  "decimal n =
     (if n < 10 then [char_of (48 + n)]
      else decimal (n div 10) @ [char_of (48 + n mod 10)])"

declare decimal.simps [simp del]

fun to_string :: "jsval \<Rightarrow> string" where
  "to_string JUndefined = ''undefined''"
| "to_string JNull = ''null''"
| "to_string (JBool b) = (if b then ''true'' else ''false'')"
| "to_string (JNum n) = (if n < 0 then CHR ''-'' # decimal (nat (- n)) else decimal (nat n))"
| "to_string (JStr s) = s"
| "to_string (JObj fs) = ''[object Object]''"

text \<open>\<^verbatim>\<open>error.message\<close> of \<^verbatim>\<open>new Error(x)\<close>: empty when \<open>x\<close> is \<^verbatim>\<open>undefined\<close>.\<close>

fun error_text :: "js_error \<Rightarrow> string" where
  "error_text (Error JUndefined) = []"
| "error_text (Error v) = to_string v"

text \<open>
  The DOM elements the controller holds (lines 10-16) and its one variable (line 19).
\<close>

record status_view =
  status_text :: string
  status_class :: string
  status_hidden :: bool

record button =
  disabled :: bool
  caption :: string

record page =
  sessionIdInput :: string
  deviceLabelInput :: string
  statusDiv :: status_view
  submitBtn :: button
  resultsBtn :: button
  isRunning :: bool

text \<open>Lines 24-27.\<close>

definition showStatus :: "page \<Rightarrow> string \<Rightarrow> bool \<Rightarrow> page" where
  "showStatus ui message isError =
     ui\<lparr>statusDiv := (statusDiv ui)\<lparr>status_text := message,
          status_class := (if isError then ''error'' else ''success'')\<rparr>\<rparr>"

text \<open>Lines 32-35.\<close>

definition hideStatus :: "page \<Rightarrow> page" where
  "hideStatus ui =
     ui\<lparr>statusDiv := (statusDiv ui)\<lparr>status_class := [], status_hidden := True\<rparr>\<rparr>"

text \<open>Lines 40-54: \<open>None\<close> is the \<^verbatim>\<open>null\<close> the function returns.\<close>

definition validateInputs :: "page \<Rightarrow> page \<times> (string \<times> string) option" where
  "validateInputs ui =
     (let sessionId = trim (sessionIdInput ui);
          deviceLabel = trim (deviceLabelInput ui)
      in if sessionId = [] then (showStatus ui ''Please enter a Session ID'' True, None)
         else if deviceLabel = [] then (showStatus ui ''Please enter a Device Label'' True, None)
         else (ui, Some (sessionId, deviceLabel)))"

text \<open>
  What the controller asks of its collaborators, in the order it asks:
  \<^verbatim>\<open>fetchFingerprinterJs()\<close>, \<^verbatim>\<open>executeInSandbox(js)\<close>, the POST of
  \<^verbatim>\<open>submitFingerprint(sessionId, deviceLabel, hash)\<close> to \<^verbatim>\<open>/collect\<close>, the GET of
  \<^verbatim>\<open>fetchResults(sessionId)\<close>, and \<^verbatim>\<open>displayResults(results)\<close>.
\<close>

datatype action =
    FetchFingerprinterJs
  | ExecuteInSandbox string
  | SubmitFingerprint string string jsval
  | FetchResults string
  | DisplayResults jsval

text \<open>
  How an awaited call of a collaborator ends: it throws an error with a message, it
  returns, or its promise never settles. The bodies of \<^verbatim>\<open>fetchFingerprinterJs\<close>,
  \<^verbatim>\<open>submitFingerprint\<close> and \<^verbatim>\<open>fetchResults\<close> turn the server's answer into one of the
  first two.
\<close>

datatype 'a awaited = Failed string | Done 'a | Hangs

record submit_env =
  fingerprinter_js :: "string awaited"
  contentWindow :: windowref
  sandbox_events :: "event list"
  collect :: "unit awaited"

text \<open>
  \<^verbatim>\<open>fingerprintHash.substring(0, 32)\<close> of line 263: a TypeError on a value that is not a
  string (its wording is the engine's).
\<close>

fun substring32 :: "jsval \<Rightarrow> string option" where
  "substring32 (JStr s) = Some (take 32 s)"
| "substring32 v = None"

definition substring_type_error :: string where
  "substring_type_error = ''fingerprintHash.substring is not a function''"

text \<open>
  Lines 265-266 and 294-295, the \<^verbatim>\<open>catch\<close> blocks of the two handlers, and lines 267-271,
  the \<^verbatim>\<open>finally\<close> of \<^verbatim>\<open>handleSubmit\<close>.
\<close>

definition show_failure :: "page \<Rightarrow> string \<Rightarrow> page" where
  "show_failure ui m = showStatus ui (cross_mark @ '' Error: '' @ m) True"

definition submit_finally :: "page \<Rightarrow> page" where
  "submit_finally ui =
     ui\<lparr>isRunning := False, submitBtn := \<lparr>disabled = False, caption = ''Submit Fingerprint''\<rparr>\<rparr>"

text \<open>
  Lines 239-272. An \<^verbatim>\<open>async\<close> function runs up to its next \<^verbatim>\<open>await\<close> and goes on when the
  awaited promise settles, so the handler is written as its three continuations, last
  first. The result is the page as the handler leaves it (for good, when an awaited
  promise never settles) and the requests it has made.
\<close>

text \<open>Lines 261-263, after \<^verbatim>\<open>await submitFingerprint(...)\<close>.\<close>

definition after_submit :: "page \<Rightarrow> jsval \<Rightarrow> unit awaited \<Rightarrow> page" where
  "after_submit ui5 fingerprintHash submitted =
     (case submitted of
        Hangs \<Rightarrow> ui5
      | Failed m \<Rightarrow> submit_finally (show_failure ui5 m)
      | Done u \<Rightarrow>
          (case substring32 fingerprintHash of
             None \<Rightarrow> submit_finally (show_failure ui5 substring_type_error)
           | Some prefix \<Rightarrow>
               submit_finally
                 (showStatus ui5 (check_mark @ '' Fingerprint collected: '' @ prefix @ ''...'')
                    False)))"

text \<open>Lines 257-261, after \<^verbatim>\<open>await executeInSandbox(fingerprintJs)\<close>.\<close>

definition after_sandbox ::
  "page \<Rightarrow> string \<Rightarrow> string \<Rightarrow> promise_state \<Rightarrow> unit awaited \<Rightarrow> page \<times> action list" where
  "after_sandbox ui4 sessionId deviceLabel outcome submitted =
     (case outcome of
        Pending \<Rightarrow> (ui4, [])
      | Rejected e \<Rightarrow> (submit_finally (show_failure ui4 (error_text e)), [])
      | Fulfilled fingerprintHash \<Rightarrow>
          (after_submit (showStatus ui4 ''Submitting fingerprint...'' False)
             fingerprintHash submitted,
           [SubmitFingerprint sessionId deviceLabel fingerprintHash]))"

text \<open>Lines 253-257, after \<^verbatim>\<open>await fetchFingerprinterJs()\<close>.\<close>

definition after_fetch ::
  "page \<Rightarrow> string \<Rightarrow> string \<Rightarrow> submit_env \<Rightarrow> page \<times> action list" where
  "after_fetch ui3 sessionId deviceLabel env =
     (case fingerprinter_js env of
        Hangs \<Rightarrow> (ui3, [])
      | Failed m \<Rightarrow> (submit_finally (show_failure ui3 m), [])
      | Done fingerprintJs \<Rightarrow>
          (let r = after_sandbox (showStatus ui3 ''Executing script in sandbox...'' False)
                     sessionId deviceLabel
                     (promise (run (contentWindow env) (executeInSandbox fingerprintJs)
                                 (sandbox_events env)))
                     (collect env)
           in (fst r, ExecuteInSandbox fingerprintJs # snd r)))"

text \<open>Lines 239-253.\<close>

definition handleSubmit :: "page \<Rightarrow> submit_env \<Rightarrow> page \<times> action list" where
  "handleSubmit ui env =
     (if isRunning ui then (ui, [])
      else
        (case validateInputs ui of
           (ui1, None) \<Rightarrow> (ui1, [])
         | (ui1, Some (sessionId, deviceLabel)) \<Rightarrow>
             (let ui2 = hideStatus (ui1\<lparr>isRunning := True,
                          submitBtn := \<lparr>disabled = True, caption = ''Running...''\<rparr>\<rparr>);
                  r = after_fetch (showStatus ui2 ''Loading fingerprinter.js...'' False)
                        sessionId deviceLabel env
              in (fst r, FetchFingerprinterJs # snd r))))"

text \<open>
  The answers \<^verbatim>\<open>handleResults\<close> waits for: the results of \<^verbatim>\<open>fetchResults\<close>, and the message
  of the exception \<^verbatim>\<open>displayResults\<close> raises on them, if it raises one (the rendering of
  lines 200-225 is the presenter's and is not modelled further).
\<close>

record results_env =
  results_response :: "jsval awaited"
  display_throws :: "string option"

definition results_finally :: "page \<Rightarrow> page" where
  "results_finally ui = ui\<lparr>resultsBtn := \<lparr>disabled = False, caption = ''View Results''\<rparr>\<rparr>"

text \<open>Lines 277-300.\<close>

definition handleResults :: "page \<Rightarrow> results_env \<Rightarrow> page \<times> action list" where
  "handleResults ui env =
     (let sessionId = trim (sessionIdInput ui)
      in if sessionId = [] then (showStatus ui ''Please enter a Session ID first'' True, [])
         else
           let ui1 = hideStatus (ui\<lparr>resultsBtn := \<lparr>disabled = True, caption = ''Loading...''\<rparr>\<rparr>);
               ui2 = showStatus ui1 ''Fetching results...'' False
           in case results_response env of
                Hangs \<Rightarrow> (ui2, [FetchResults sessionId])
              | Failed m \<Rightarrow>
                  (results_finally (show_failure ui2 m), [FetchResults sessionId])
              | Done results \<Rightarrow>
                  (case display_throws env of
                     Some m \<Rightarrow>
                       (results_finally (show_failure ui2 m),
                        [FetchResults sessionId, DisplayResults results])
                   | None \<Rightarrow>
                       (results_finally
                          (showStatus ui2 (check_mark @ '' Results loaded successfully'') False),
                        [FetchResults sessionId, DisplayResults results])))"

section \<open>The scoring engine\<close>

text \<open>
  Modelled from the spec: the scoring function of the server (the ScoringEngine of
  section 4.2) is not among the source files; only its documentation
  (\<^verbatim>\<open>docs/TESTING.md\<close>, Scoring Rules) is. The definitions follow the seven steps of the
  spec's algorithm, over exact rationals.
\<close>

record device_record =
  device_label :: string
  fingerprint_hash :: string

text \<open>Step 1: the distinct devices, and the distinct hashes a device submitted.\<close>

definition devices :: "device_record list \<Rightarrow> string list" where
  "devices recs = remdups (map device_label recs)"

definition hash_set :: "device_record list \<Rightarrow> string \<Rightarrow> string list" where
  "hash_set recs d = remdups (map fingerprint_hash (filter (\<lambda>r. device_label r = d) recs))"

text \<open>
  Step 2: 1 hash gives 1.0, 2 give 0.7, 3 or more give 0.0. A device of the sequence has
  at least one hash, so the count 0 does not occur; it falls into the last case here.
\<close>

definition fragmentation_score :: "nat \<Rightarrow> rat" where
  "fragmentation_score n = (if n = 1 then 1 else if n = 2 then 7 / 10 else 0)"

text \<open>Step 3: the devices that ever submitted a hash, and a device's largest overlap.\<close>

definition label_set :: "device_record list \<Rightarrow> string \<Rightarrow> string list" where
  "label_set recs h = remdups (map device_label (filter (\<lambda>r. fingerprint_hash r = h) recs))"

definition overlapDevices :: "device_record list \<Rightarrow> string \<Rightarrow> nat" where
  "overlapDevices recs d =
     foldr max (map (\<lambda>h. length (label_set recs h) - 1) (hash_set recs d)) 0"

text \<open>Step 4: the two-strike collision rule.\<close>

definition collision_rule :: "nat \<Rightarrow> rat \<Rightarrow> rat" where
  "collision_rule overlap frag =
     (if 2 \<le> overlap then 0
      else if overlap = 1 then max 0 (frag - 1 / 4)
      else frag)"

text \<open>Step 5: the device's points, clamped to the unit interval.\<close>

definition device_points :: "device_record list \<Rightarrow> string \<Rightarrow> rat" where
  "device_points recs d =
     max 0 (min 1 (collision_rule (overlapDevices recs d)
                     (fragmentation_score (length (hash_set recs d)))))"

text \<open>Step 6: the session score, 0.0 when there is no device.\<close>

definition session_score :: "device_record list \<Rightarrow> rat" where
  "session_score recs =
     (let ds = devices recs
      in if ds = [] then 0
         else sum_list (map (device_points recs) ds) / of_nat (length ds))"

section \<open>Sample inputs and the timer invariant\<close>

text \<open>
  A settled promise never has its timer still armed; the invariant of the run that the
  resource statements rest on.
\<close>

definition timer_settled :: "run_state \<Rightarrow> bool" where
  "timer_settled s = (promise s = Pending \<or> \<not> is_armed (timer s))"

text \<open>The page as it loads, with the two inputs filled in.\<close>

definition initial_page :: "string \<Rightarrow> string \<Rightarrow> page" where
  "initial_page sid dl =
     \<lparr>sessionIdInput = sid, deviceLabelInput = dl,
      statusDiv = \<lparr>status_text = [], status_class = [], status_hidden = False\<rparr>,
      submitBtn = \<lparr>disabled = False, caption = ''Submit Fingerprint''\<rparr>,
      resultsBtn = \<lparr>disabled = False, caption = ''View Results''\<rparr>,
      isRunning = False\<rparr>"

text \<open>A server that never answers, and one whose script reports the hash \<open>h\<close>.\<close>

definition never_answers :: submit_env where
  "never_answers =
     \<lparr>fingerprinter_js = Hangs, contentWindow = Some 1, sandbox_events = [], collect = Hangs\<rparr>"

definition sandbox_answers :: "string \<Rightarrow> jsval \<Rightarrow> submit_env" where
  "sandbox_answers js h =
     \<lparr>fingerprinter_js = Done js, contentWindow = Some 1,
      sandbox_events = [Message (Some 1) (result_message h)], collect = Done ()\<rparr>"

section \<open>Properties of the host side of a run\<close>

lemma run_Nil: "run cw s [] = s"
  by (simp add: run_def)

lemma run_Cons: "run cw s (e # evs) = run cw (step cw s e) evs"
  by (simp add: run_def)

lemma run_append: "run cw s (xs @ ys) = run cw (run cw s xs) ys"
  by (simp add: run_def)

lemma handleMessage_foreign: "src \<noteq> cw \<Longrightarrow> handleMessage cw s src d = s"
  by (simp add: handleMessage_def)

lemma handleMessage_result:
  "promise s = Pending \<Longrightarrow>
   promise (handleMessage cw s cw (result_message h)) = Fulfilled h"
  by (simp add: handleMessage_def result_message_def Let_def)

text \<open>Once the timer is cleared and the listener removed, no event changes the run.\<close>

lemma stuck_state:
  "timer s = Cleared \<Longrightarrow> \<not> listener s \<Longrightarrow> run cw s evs = s"
proof (induction evs)
  case Nil
  then show ?case by (simp add: run_Nil)
next
  case (Cons e evs)
  have "step cw s e = s" using Cons.prems by (cases e) simp_all
  then show ?case using Cons by (simp add: run_Cons)
qed

text \<open>A settled promise keeps its outcome.\<close>

lemma settle_once_step: "promise s \<noteq> Pending \<Longrightarrow> promise (step cw s e) = promise s"
  by (cases e; cases "promise s")
     (auto simp: handleMessage_def timeout_callback_def Let_def split: timer_state.splits)

lemma settled_stays: "promise s \<noteq> Pending \<Longrightarrow> promise (run cw s evs) = promise s"
  by (induction evs arbitrary: s) (simp_all add: run_Nil run_Cons settle_once_step)

text \<open>No step touches the object URL.\<close>

lemma object_url_step: "object_url (step cw s e) = object_url s"
  by (cases e) (auto simp: handleMessage_def timeout_callback_def Let_def split: timer_state.splits)

lemma object_url_run: "object_url (run cw s evs) = object_url s"
  by (induction evs arbitrary: s) (simp_all add: run_Nil run_Cons object_url_step)

lemma not_armed_clear: "\<not> is_armed (clearTimeout t)"
  by (cases t) simp_all

lemma timer_settled_step: "timer_settled s \<Longrightarrow> timer_settled (step cw s e)"
  by (cases e; cases "promise s"; cases "timer s")
     (auto simp: timer_settled_def handleMessage_def timeout_callback_def Let_def)

lemma timer_settled_run: "timer_settled s \<Longrightarrow> timer_settled (run cw s evs)"
  by (induction evs arbitrary: s) (simp_all add: run_Nil run_Cons timer_settled_step)

text \<open>
  While only time passes and other windows send messages, the run keeps its state but
  for the timer counting down, up to the moment the delay runs out.
\<close>

lemma quiet_prefix:
  "list_all (not_from cw) evs \<Longrightarrow> timer s = Armed n \<Longrightarrow> elapsed evs < n \<Longrightarrow>
   run cw s evs = s\<lparr>timer := Armed (n - elapsed evs)\<rparr>"
proof (induction evs arbitrary: s n)
  case Nil
  then show ?case by (simp add: run_Nil)
next
  case (Cons e evs)
  show ?case
  proof (cases e)
    case (Message src d)
    then have "step cw s e = s" using Cons.prems by (simp add: handleMessage_foreign)
    then show ?thesis using Cons Message by (simp add: run_Cons)
  next
    case (Elapse k)
    then have k: "k < n" "elapsed evs < n - k" using Cons.prems by simp_all
    then have st: "step cw s e = s\<lparr>timer := Armed (n - k)\<rparr>"
      using Cons.prems Elapse by simp
    have "list_all (not_from cw) evs" using Cons.prems by simp
    from Cons.IH [OF this _ k(2), of "s\<lparr>timer := Armed (n - k)\<rparr>"]
    show ?thesis using st Elapse by (simp add: run_Cons)
  qed
qed

lemma quiet_run:
  "list_all (not_from cw) evs \<Longrightarrow> promise s = Pending \<Longrightarrow> timer s = Armed n \<Longrightarrow> 0 < n \<Longrightarrow>
   promise (run cw s evs) = (if elapsed evs < n then Pending else Rejected timeout_error)"
proof (induction evs arbitrary: s n)
  case Nil
  then show ?case by (simp add: run_Nil)
next
  case (Cons e evs)
  show ?case
  proof (cases e)
    case (Message src d)
    then have "step cw s e = s" using Cons.prems by (simp add: handleMessage_foreign)
    then show ?thesis using Cons Message by (simp add: run_Cons)
  next
    case (Elapse k)
    show ?thesis
    proof (cases "n \<le> k")
      case True
      then have "promise (step cw s e) = Rejected timeout_error"
        using Cons.prems Elapse by (simp add: timeout_callback_def)
      then have "promise (run cw (step cw s e) evs) = Rejected timeout_error"
        by (simp add: settled_stays)
      then show ?thesis using True Elapse by (simp add: run_Cons)
    next
      case False
      then have s': "promise (step cw s e) = Pending" "timer (step cw s e) = Armed (n - k)"
        "0 < n - k"
        using Cons.prems Elapse by simp_all
      have "list_all (not_from cw) evs" using Cons.prems by simp
      from Cons.IH [OF this s'] show ?thesis using False Elapse by (auto simp: run_Cons)
    qed
  qed
qed

lemma error_message_rejects:
  "promise s = Pending \<Longrightarrow> listener s \<Longrightarrow> truthy m \<Longrightarrow>
   promise (run cw s (deliver cw [error_message m])) = Rejected (Error m)"
  by (simp add: deliver_def run_def handleMessage_def error_message_def Let_def)

subsection \<open>C1: one outcome per run\<close>

text \<open>
  Claim C1 says that every run ends in exactly one outcome, whatever message the sandbox
  sends, a message without the type \<^verbatim>\<open>fingerprint-result\<close> included. The code does
  otherwise: \<^verbatim>\<open>handleMessage\<close> clears the timer and removes the listener before it looks
  at \<^verbatim>\<open>event.data\<close>, and has no branch for data of another type. After the message
  \<^verbatim>\<open>{type: 'noise'}\<close> from the sandbox window the promise is pending, the timer is cleared
  and the listener is gone, and this stays so whatever events follow: neither outcome is
  ever delivered.
\<close>

theorem noise_message_never_settles:
  "promise (run cw (executeInSandbox js)
      (Message cw (JObj [(''type'', JStr ''noise'')]) # evs)) = Pending
   \<and> timer (run cw (executeInSandbox js)
      (Message cw (JObj [(''type'', JStr ''noise'')]) # evs)) = Cleared
   \<and> \<not> listener (run cw (executeInSandbox js)
      (Message cw (JObj [(''type'', JStr ''noise'')]) # evs))"
proof -
  let ?s = "step cw (executeInSandbox js) (Message cw (JObj [(''type'', JStr ''noise'')]))"
  have s: "timer ?s = Cleared" "\<not> listener ?s" "promise ?s = Pending"
    by (simp_all add: executeInSandbox_def handleMessage_def Let_def)
  then have "run cw ?s evs = ?s" by (simp add: stuck_state)
  then show ?thesis using s by (simp add: run_Cons)
qed

subsection \<open>C2: messages from other windows\<close>

text \<open>
  Claim C2: a message event whose source is not \<^verbatim>\<open>sandbox.contentWindow\<close> has no effect at
  all (\<^verbatim>\<open>handleMessage\<close> returns the state it was given: the timer is not cleared, the
  listener stays, the promise stays as it was), and a later genuine message from the
  sandbox window still resolves the call: after the foreign message, and after any
  further events that are not messages from the sandbox window and take less than the
  5000 ms of the timer, the result message with hash \<open>h\<close> fulfils the promise with \<open>h\<close>.
\<close>

theorem foreign_source_ignored:
  assumes "src \<noteq> cw" and "list_all (not_from cw) evs" and "elapsed evs < 5000"
  shows "handleMessage cw s src d = s
       \<and> step cw s (Message src d) = s
       \<and> promise (run cw (executeInSandbox js)
            (Message src d # evs @ [Message cw (result_message h)])) = Fulfilled h"
proof -
  have a: "handleMessage cw s src d = s"
    using assms(1) by (rule handleMessage_foreign)
  then have b: "step cw s (Message src d) = s" by simp
  let ?t = "run cw (executeInSandbox js) (Message src d # evs)"
  have "list_all (not_from cw) (Message src d # evs)" using assms(1,2) by simp
  moreover have "elapsed (Message src d # evs) < 5000" using assms(3) by simp
  ultimately have "?t = (executeInSandbox js)\<lparr>timer := Armed (5000 - elapsed (Message src d # evs))\<rparr>"
    by (intro quiet_prefix) (simp_all add: executeInSandbox_def)
  then have t: "promise ?t = Pending" "listener ?t"
    by (simp_all add: executeInSandbox_def)
  have "run cw (executeInSandbox js) ((Message src d # evs) @ [Message cw (result_message h)])
      = step cw ?t (Message cw (result_message h))"
    by (simp only: run_append run_Cons run_Nil)
  then have "promise (run cw (executeInSandbox js)
      ((Message src d # evs) @ [Message cw (result_message h)])) = Fulfilled h"
    using t by (simp add: handleMessage_result)
  then show ?thesis using a b by simp
qed

theorem foreign_source_ignored_witness:
  "Some (2::nat) \<noteq> Some 1
   \<and> list_all (not_from (Some 1))
       [Message None JNull, Elapse 300, Message (Some 2) (result_message (JStr ''forged''))]
   \<and> elapsed [Message None JNull, Elapse 300, Message (Some 2) (result_message (JStr ''forged''))]
       < 5000
   \<and> handleMessage (Some 1) (executeInSandbox ''js'') (Some 2) (error_message (JStr ''forged''))
       = executeInSandbox ''js''
   \<and> promise (run (Some 1) (executeInSandbox ''js'')
        [Message (Some 2) (error_message (JStr ''forged'')), Message None JNull, Elapse 300,
         Message (Some 2) (result_message (JStr ''forged'')),
         Message (Some 1) (result_message (JStr ''abc''))]) = Fulfilled (JStr ''abc'')"
  using foreign_source_ignored [of "Some 2" "Some 1"
      "[Message None JNull, Elapse 300, Message (Some 2) (result_message (JStr ''forged''))]"
      "executeInSandbox ''js''" "error_message (JStr ''forged'')" "''js''" "JStr ''abc''"]
  by simp

subsection \<open>C5: the resources of a run\<close>

text \<open>
  Claim C5 says that every exit path cancels the timer and releases the listener, the blob
  and its object URL. Against it: after a normal completion the object URL is still live
  (the source has no \<^verbatim>\<open>URL.revokeObjectURL\<close>), and after the timeout the listener is still
  installed and the object URL is still live.
\<close>

theorem resources_counterexample:
  "object_url (run (Some 1) (executeInSandbox ''js'')
      [Message (Some 1) (result_message (JStr ''abc''))]) = Some ''js''
   \<and> listener (run (Some 1) (executeInSandbox ''js'') [Elapse 5000])
   \<and> object_url (run (Some 1) (executeInSandbox ''js'') [Elapse 5000]) = Some ''js''"
  by (simp add: run_def executeInSandbox_def handleMessage_def result_message_def
      timeout_callback_def Let_def)

text \<open>
  Claim C5, as amended: in every state a run reaches, a settled promise goes with a timer
  that is no longer armed (cleared by the handler, or used up by firing); a message
  accepted from the sandbox window leaves the timer not armed and the listener removed;
  and no event of a run releases the object URL.
\<close>

theorem terminal_state_resources:
  "(promise (run cw (executeInSandbox js) evs) \<noteq> Pending
      \<longrightarrow> \<not> is_armed (timer (run cw (executeInSandbox js) evs)))
   \<and> \<not> is_armed (timer (handleMessage cw s cw d))
   \<and> \<not> listener (handleMessage cw s cw d)
   \<and> object_url (run cw s evs) = object_url s"
proof -
  have "timer_settled (executeInSandbox js)"
    by (simp add: timer_settled_def executeInSandbox_def)
  then have "timer_settled (run cw (executeInSandbox js) evs)"
    by (rule timer_settled_run)
  then have "promise (run cw (executeInSandbox js) evs) \<noteq> Pending
      \<longrightarrow> \<not> is_armed (timer (run cw (executeInSandbox js) evs))"
    by (auto simp: timer_settled_def)
  moreover have "\<not> is_armed (timer (handleMessage cw s cw d))"
    by (simp add: handleMessage_def Let_def not_armed_clear)
  moreover have "\<not> listener (handleMessage cw s cw d)"
    by (simp add: handleMessage_def Let_def)
  ultimately show ?thesis by (simp add: object_url_run)
qed

theorem terminal_state_resources_witness:
  "promise (run (Some 1) (executeInSandbox ''js'') [Elapse 5000]) \<noteq> Pending
   \<and> \<not> is_armed (timer (run (Some 1) (executeInSandbox ''js'') [Elapse 5000]))
   \<and> \<not> listener (handleMessage (Some 1) (executeInSandbox ''js'') (Some 1)
         (result_message (JStr ''abc'')))
   \<and> object_url (run (Some 1) (executeInSandbox ''js'') [Elapse 5000]) = Some ''js''"
  using terminal_state_resources [of "Some 1" "''js''" "[Elapse 5000]"
      "executeInSandbox ''js''" "result_message (JStr ''abc'')"]
  by (simp add: run_def executeInSandbox_def timeout_callback_def timeout_error_def)

section \<open>Properties of the sandbox document\<close>

lemma guard_script_other:
  "k \<noteq> ''eval'' \<Longrightarrow> k \<noteq> ''parent'' \<Longrightarrow> k \<noteq> ''top'' \<Longrightarrow> guard_script pol w k = w k"
  by (simp add: guard_script_def assign_def split: write_policy.splits)

lemma guard_script_eval:
  "pol ''eval'' = Writable \<Longrightarrow>
   guard_script pol w ''eval'' = Some (GThrower ''eval() is not allowed'')"
  by (simp add: guard_script_def assign_def split: write_policy.splits)

lemma guard_script_parent:
  "pol ''eval'' \<noteq> Throwing \<Longrightarrow> pol ''parent'' = Writable \<Longrightarrow>
   guard_script pol w ''parent'' = Some GNull"
  by (simp add: guard_script_def assign_def split: write_policy.splits)

text \<open>
  With \<^verbatim>\<open>window.parent\<close> severed, the document of a text that re-assigns no global cannot
  send anything; and the guards sever it wherever their own write is honoured.
\<close>

lemma catch_post_severed: "\<not> is_window (w ''parent'') \<Longrightarrow> catch_post w e = []"
  by (simp add: catch_post_def split: option.splits)

lemma module_script_severed:
  "rebinds_nothing sc \<Longrightarrow> \<not> is_window (w ''parent'') \<Longrightarrow> module_script pol w sc = []"
  by (induction pol w sc rule: module_script.induct)
     (auto simp: promise_chain_def then_callback_def catch_post_severed
      split: call_result.splits settle.splits)

lemma guards_silence_document:
  "rebinds_nothing sc \<Longrightarrow> pol ''eval'' \<noteq> Throwing \<Longrightarrow> pol ''parent'' = Writable \<Longrightarrow>
   sandboxHtml pol w sc = []"
proof -
  assume sc: "rebinds_nothing sc" and p: "pol ''eval'' \<noteq> Throwing" "pol ''parent'' = Writable"
  have "guard_script pol w ''parent'' = Some GNull"
    using p by (rule guard_script_parent)
  then have "\<not> is_window (guard_script pol w ''parent'')" by simp
  then show ?thesis using sc by (simp add: sandboxHtml_def module_script_severed)
qed

text \<open>With \<^verbatim>\<open>window.parent\<close> a window, the reporting code sends the two error messages.\<close>

lemma document_reports_missing_entry_point:
  "is_window (w ''parent'') \<Longrightarrow>
   module_script pol w (BodyCompletes NotAFunction) = [error_message (JStr entry_point_missing)]"
  by (simp add: catch_post_def caught_message_def new_Error_def)

lemma document_reports_invalid_result:
  "is_window (w ''parent'') \<Longrightarrow> \<not> is_string v \<Longrightarrow>
   module_script pol w (BodyCompletes (Callable (ReturnsPromise (Fulfils v))))
     = [error_message (JStr invalid_result_type)]"
  by (simp add: promise_chain_def then_callback_def catch_post_def
      caught_message_def new_Error_def)

subsection \<open>C3: dynamic code evaluation\<close>

text \<open>
  Claim C3 says that every primitive that evaluates code, the \<^verbatim>\<open>Function\<close> constructor
  included, is intercepted before the script body runs. Against it: in a fresh iframe,
  after the guards, \<^verbatim>\<open>Function\<close> is still the function the platform provides.
\<close>

theorem eval_guard_counterexample:
  "guard_script standard_policy fresh_globals ''Function'' = Some GNative
   \<and> \<not> intercepted (guard_script standard_policy fresh_globals ''Function'')"
  by (simp add: guard_script_def assign_def standard_policy_def fresh_globals_def)

text \<open>
  Claim C3, as amended: the guards replace the global \<^verbatim>\<open>eval\<close> alone, where the platform
  honours the write, by a function that throws \<^verbatim>\<open>Error('eval() is not allowed')\<close> when it
  is called; every global other than \<^verbatim>\<open>eval\<close>, \<^verbatim>\<open>parent\<close> and \<^verbatim>\<open>top\<close> is what it was
  before the guards ran.
\<close>

theorem eval_guard_only:
  "(pol ''eval'' = Writable \<longrightarrow>
      guard_script pol w ''eval'' = Some (GThrower ''eval() is not allowed'')
      \<and> intercepted (guard_script pol w ''eval''))
   \<and> (k \<noteq> ''eval'' \<and> k \<noteq> ''parent'' \<and> k \<noteq> ''top'' \<longrightarrow> guard_script pol w k = w k)"
  by (simp add: guard_script_eval guard_script_other)

theorem eval_guard_only_witness:
  "standard_policy ''eval'' = Writable
   \<and> intercepted (guard_script standard_policy fresh_globals ''eval'')
   \<and> guard_script standard_policy fresh_globals ''Function'' = fresh_globals ''Function''"
  using eval_guard_only [of standard_policy fresh_globals "''Function''"]
  by (simp add: standard_policy_def)

subsection \<open>C4: the reference to the creator\<close>

text \<open>
  Claim C4 says that the document's reference to its creator is severed before the script
  body runs, so that no usable reference to the host is left. The code attempts it
  (\<^verbatim>\<open>window.top = null\<close>, line 111, under the comment \<^verbatim>\<open>Prevent access to parent\<close>) and
  misses: on the HTML standard's Window the write to \<^verbatim>\<open>top\<close> is dropped, so after the
  guards \<^verbatim>\<open>top\<close> is what it was, in a fresh iframe the host window. The reference is
  usable: a text that starts with \<^verbatim>\<open>window.parent = window.top\<close> gets its result delivered
  to the host by the document's own reporting code.
\<close>

theorem top_reference_survives_guards:
  "guard_script standard_policy w ''top'' = w ''top''
   \<and> guard_script standard_policy fresh_globals ''top'' = Some (GWindow 0)
   \<and> is_window (guard_script standard_policy fresh_globals ''top'')
   \<and> sandboxHtml standard_policy fresh_globals
        (Assigns ''parent'' ''top''
           (BodyCompletes (Callable (ReturnsPromise (Fulfils (JStr ''abc''))))))
      = [result_message (JStr ''abc'')]"
proof -
  have a: "guard_script standard_policy w ''top'' = w ''top''" for w
    by (simp add: guard_script_def assign_def standard_policy_def)
  have b: "guard_script standard_policy fresh_globals ''top'' = Some (GWindow 0)"
    by (simp add: a fresh_globals_def)
  have "sandboxHtml standard_policy fresh_globals
        (Assigns ''parent'' ''top''
           (BodyCompletes (Callable (ReturnsPromise (Fulfils (JStr ''abc''))))))
      = [result_message (JStr ''abc'')]"
    by (simp add: sandboxHtml_def b standard_policy_def promise_chain_def then_callback_def)
  then show ?thesis using a b by simp
qed

subsection \<open>C6: the two entry-point errors\<close>

text \<open>
  Claim C6 says that a script without a callable \<^verbatim>\<open>runFingerprinting\<close> fails with the
  entry-point error, and one whose entry point resolves to a value that is not a string
  with the result-type error. The code raises both errors (lines 123 and 128) but reports
  them through \<^verbatim>\<open>window.parent.postMessage\<close> (lines 137-140 and 143-146), after the guard of
  line 110 has set \<^verbatim>\<open>window.parent\<close> to \<^verbatim>\<open>null\<close>. On the HTML standard's Window that write
  is honoured, the report throws inside the \<^verbatim>\<open>catch\<close>, and the document sends nothing: for
  a script with no entry point, and for one whose entry point resolves to 42, the host's
  promise is rejected by the timer with the timeout's message, which is neither of the
  two messages.
\<close>

theorem entry_point_report_never_arrives:
  "sandboxHtml standard_policy fresh_globals (BodyCompletes NotAFunction) = []
   \<and> sandboxHtml standard_policy fresh_globals
        (BodyCompletes (Callable (ReturnsPromise (Fulfils (JNum 42))))) = []
   \<and> promise (run (Some 1) (executeInSandbox js)
        (deliver (Some 1) (sandboxHtml standard_policy fresh_globals (BodyCompletes NotAFunction))
         @ [Elapse 5000])) = Rejected timeout_error
   \<and> promise (run (Some 1) (executeInSandbox js)
        (deliver (Some 1) (sandboxHtml standard_policy fresh_globals
            (BodyCompletes (Callable (ReturnsPromise (Fulfils (JNum 42))))))
         @ [Elapse 5000])) = Rejected timeout_error
   \<and> timeout_error \<noteq> Error (JStr entry_point_missing)
   \<and> timeout_error \<noteq> Error (JStr invalid_result_type)"
proof -
  have p: "standard_policy ''eval'' \<noteq> Throwing" "standard_policy ''parent'' = Writable"
    by (simp_all add: standard_policy_def)
  have a: "sandboxHtml standard_policy fresh_globals (BodyCompletes NotAFunction) = []"
    using p by (intro guards_silence_document) simp_all
  have b: "sandboxHtml standard_policy fresh_globals
        (BodyCompletes (Callable (ReturnsPromise (Fulfils (JNum 42))))) = []"
    using p by (intro guards_silence_document) simp_all
  have t: "promise (run (Some 1) (executeInSandbox js) [Elapse 5000]) = Rejected timeout_error"
    by (simp add: run_def executeInSandbox_def timeout_callback_def)
  have c: "timeout_error \<noteq> Error (JStr entry_point_missing)"
    "timeout_error \<noteq> Error (JStr invalid_result_type)"
    by (simp_all add: timeout_error_def entry_point_missing_def invalid_result_type_def)
  show ?thesis using t c by (simp add: a b deliver_def)
qed

subsection \<open>C7: the timeout\<close>

text \<open>
  Claim C7 says that every script whose entry point never settles fails with the timeout.
  Against it: the document of such a script sends nothing, but the script's own text can
  post a result message from the sandbox window, and the run is then fulfilled with it.
\<close>

theorem timeout_counterexample:
  "sandboxHtml standard_policy fresh_globals
      (BodyCompletes (Callable (ReturnsPromise NeverSettles))) = []
   \<and> promise (run (Some 1) (executeInSandbox ''js'')
        [Message (Some 1) (result_message (JStr ''forged'')), Elapse 5000])
      = Fulfilled (JStr ''forged'')"
  by (simp add: run_def executeInSandbox_def handleMessage_def result_message_def Let_def
      sandboxHtml_def promise_chain_def)

text \<open>
  Claim C7, as amended: for a script whose entry point never settles, as long as the host
  receives no message from the sandbox window, the promise is pending while fewer than
  5000 ms have passed and rejected with \<^verbatim>\<open>Script execution timed out (5s limit)\<close> once
  5000 ms have passed. The delay is the constant 5000 of \<^verbatim>\<open>setTimeout\<close>.
\<close>

theorem timeout_at_deadline:
  assumes "list_all (not_from cw) evs"
  shows "promise (run cw (executeInSandbox js)
           (deliver cw (sandboxHtml pol w (BodyCompletes (Callable (ReturnsPromise NeverSettles))))
            @ evs))
         = (if elapsed evs < 5000 then Pending else Rejected timeout_error)"
proof -
  have "sandboxHtml pol w (BodyCompletes (Callable (ReturnsPromise NeverSettles))) = []"
    by (simp add: sandboxHtml_def promise_chain_def)
  moreover have "promise (run cw (executeInSandbox js) evs)
      = (if elapsed evs < 5000 then Pending else Rejected timeout_error)"
    using assms by (intro quiet_run) (simp_all add: executeInSandbox_def)
  ultimately show ?thesis by (simp add: deliver_def)
qed

theorem timeout_at_deadline_witness:
  "list_all (not_from (Some 1)) [Elapse 4999, Message (Some 2) (result_message (JStr ''x''))]
   \<and> promise (run (Some 1) (executeInSandbox ''js'')
        [Elapse 4999, Message (Some 2) (result_message (JStr ''x''))]) = Pending
   \<and> list_all (not_from (Some 1))
        [Elapse 4999, Message (Some 2) (result_message (JStr ''x'')), Elapse 1]
   \<and> promise (run (Some 1) (executeInSandbox ''js'')
        [Elapse 4999, Message (Some 2) (result_message (JStr ''x'')), Elapse 1])
       = Rejected timeout_error"
  using timeout_at_deadline [of "Some 1"
      "[Elapse 4999, Message (Some 2) (result_message (JStr ''x''))]"
      "''js''" standard_policy fresh_globals]
    timeout_at_deadline [of "Some 1"
      "[Elapse 4999, Message (Some 2) (result_message (JStr ''x'')), Elapse 1]"
      "''js''" standard_policy fresh_globals]
  by (simp add: deliver_def sandboxHtml_def promise_chain_def)

section \<open>Properties of the page controller\<close>

lemma trim_blank: "list_all is_whitespace s \<Longrightarrow> trim s = []"
proof -
  assume "list_all is_whitespace s"
  then have d: "dropWhile is_whitespace s = []"
    by (simp add: list_all_iff)
  show ?thesis unfolding trim_def d by simp
qed

lemma trim_Nil: "trim [] = []"
  by (simp add: trim_def)

lemma trim_suffix:
  "dropWhile is_whitespace s
     = trim s @ rev (takeWhile is_whitespace (rev (dropWhile is_whitespace s)))"
proof -
  let ?t = "dropWhile is_whitespace s"
  have "rev (takeWhile is_whitespace (rev ?t) @ dropWhile is_whitespace (rev ?t)) = rev (rev ?t)"
    by (simp only: takeWhile_dropWhile_id)
  then have "rev (dropWhile is_whitespace (rev ?t)) @ rev (takeWhile is_whitespace (rev ?t)) = ?t"
    by (simp only: rev_append rev_rev_ident)
  then show ?thesis by (simp only: trim_def)
qed

lemma trim_decompose:
  "s = takeWhile is_whitespace s @ trim s
         @ rev (takeWhile is_whitespace (rev (dropWhile is_whitespace s)))"
proof -
  have "s = takeWhile is_whitespace s @ dropWhile is_whitespace s"
    by (simp only: takeWhile_dropWhile_id)
  then show ?thesis using trim_suffix [of s] by metis
qed

lemma trim_pads:
  "list_all is_whitespace (takeWhile is_whitespace s)
   \<and> list_all is_whitespace (rev (takeWhile is_whitespace (rev (dropWhile is_whitespace s))))"
  by (auto simp: list_all_iff dest: set_takeWhileD)

lemma trim_last: "trim s \<noteq> [] \<Longrightarrow> \<not> is_whitespace (last (trim s))"
proof -
  assume "trim s \<noteq> []"
  then have ne: "dropWhile is_whitespace (rev (dropWhile is_whitespace s)) \<noteq> []"
    by (simp add: trim_def)
  then have "\<not> is_whitespace (hd (dropWhile is_whitespace (rev (dropWhile is_whitespace s))))"
    by (rule hd_dropWhile)
  then show ?thesis using ne by (simp add: trim_def last_rev)
qed

lemma trim_hd: "trim s \<noteq> [] \<Longrightarrow> \<not> is_whitespace (hd (trim s))"
proof -
  assume ne: "trim s \<noteq> []"
  let ?t = "dropWhile is_whitespace s"
  have t: "?t = trim s @ rev (takeWhile is_whitespace (rev ?t))"
    by (rule trim_suffix)
  then have "?t \<noteq> []" using ne by (metis Nil_is_append_conv)
  then have "\<not> is_whitespace (hd ?t)" by (rule hd_dropWhile)
  moreover have "hd ?t = hd (trim s)" using t ne by (metis hd_append2)
  ultimately show ?thesis by simp
qed

lemma validateInputs_blank:
  "trim (sessionIdInput ui) = [] \<or> trim (deviceLabelInput ui) = [] \<Longrightarrow>
   validateInputs ui =
     (showStatus ui (if trim (sessionIdInput ui) = [] then ''Please enter a Session ID''
                     else ''Please enter a Device Label'') True, None)"
  by (auto simp: validateInputs_def Let_def)

lemma handleSubmit_blank:
  "trim (sessionIdInput ui) = [] \<or> trim (deviceLabelInput ui) = [] \<Longrightarrow>
   handleSubmit ui env =
     (if isRunning ui then (ui, [])
      else (showStatus ui (if trim (sessionIdInput ui) = [] then ''Please enter a Session ID''
                           else ''Please enter a Device Label'') True, []))"
  by (simp add: handleSubmit_def validateInputs_blank)

text \<open>The requests each continuation of \<^verbatim>\<open>handleSubmit\<close> makes.\<close>

lemma after_sandbox_actions:
  "snd (after_sandbox ui sid dl outcome submitted) =
     (case outcome of Fulfilled h \<Rightarrow> [SubmitFingerprint sid dl h] | _ \<Rightarrow> [])"
  by (simp add: after_sandbox_def split: promise_state.splits)

lemma after_fetch_actions:
  "snd (after_fetch ui sid dl env) =
     (case fingerprinter_js env of
        Done js \<Rightarrow> ExecuteInSandbox js #
          (case promise (run (contentWindow env) (executeInSandbox js) (sandbox_events env)) of
             Fulfilled h \<Rightarrow> [SubmitFingerprint sid dl h] | _ \<Rightarrow> [])
      | _ \<Rightarrow> [])"
  by (simp add: after_fetch_def after_sandbox_actions Let_def split: awaited.splits)

lemma handleSubmit_actions:
  "snd (handleSubmit ui env) =
     (if isRunning ui \<or> trim (sessionIdInput ui) = [] \<or> trim (deviceLabelInput ui) = [] then []
      else FetchFingerprinterJs # snd (after_fetch
             (showStatus (hideStatus (ui\<lparr>isRunning := True,
                 submitBtn := \<lparr>disabled = True, caption = ''Running...''\<rparr>\<rparr>))
                ''Loading fingerprinter.js...'' False)
             (trim (sessionIdInput ui)) (trim (deviceLabelInput ui)) env))"
  by (auto simp: handleSubmit_def validateInputs_def Let_def)

lemma handleSubmit_sends_trimmed:
  "SubmitFingerprint a b h \<in> set (snd (handleSubmit ui env)) \<Longrightarrow>
   a = trim (sessionIdInput ui) \<and> b = trim (deviceLabelInput ui)"
  by (auto simp: handleSubmit_actions after_fetch_actions
      split: if_splits awaited.splits promise_state.splits)

lemma handleResults_actions:
  "snd (handleResults ui renv) =
     (if trim (sessionIdInput ui) = [] then []
      else FetchResults (trim (sessionIdInput ui)) #
        (case results_response renv of Done r \<Rightarrow> [DisplayResults r] | _ \<Rightarrow> []))"
  by (simp add: handleResults_def Let_def split: awaited.splits option.splits)

subsection \<open>C8: a submit with an empty field\<close>

text \<open>
  Claim C8 says that every submit attempt with an empty session id or device label fails
  with a validation error. Against it: a first submit is waiting for the server, the
  session id is then emptied and submit is asked again (the Enter key); the guard
  \<^verbatim>\<open>if (isRunning) return\<close> ends the second attempt before the validation, the page is
  unchanged and its status is still the first attempt's, not an error.
\<close>

theorem empty_input_counterexample:
  "sessionIdInput ((fst (handleSubmit (initial_page ''s1'' ''device-1'') never_answers))
       \<lparr>sessionIdInput := []\<rparr>) = []
   \<and> handleSubmit ((fst (handleSubmit (initial_page ''s1'' ''device-1'') never_answers))
       \<lparr>sessionIdInput := []\<rparr>) never_answers
     = ((fst (handleSubmit (initial_page ''s1'' ''device-1'') never_answers))
       \<lparr>sessionIdInput := []\<rparr>, [])
   \<and> statusDiv (fst (handleSubmit
       ((fst (handleSubmit (initial_page ''s1'' ''device-1'') never_answers))
          \<lparr>sessionIdInput := []\<rparr>) never_answers))
     = \<lparr>status_text = ''Loading fingerprinter.js...'', status_class = ''success'',
        status_hidden = True\<rparr>"
  by (simp add: handleSubmit_def validateInputs_def initial_page_def never_answers_def
      after_fetch_def showStatus_def hideStatus_def trim_def is_whitespace_def Let_def)

text \<open>
  Claim C8, as amended: a submit attempt with an empty session id or an empty device label
  makes no request at all (no fetch of the script, no sandbox run, no POST to the store),
  whether a run is in flight or not; and when no run is in flight it shows the validation
  error (\<^verbatim>\<open>Please enter a Session ID\<close>, or \<^verbatim>\<open>Please enter a Device Label\<close>, with the class
  \<^verbatim>\<open>error\<close>) and changes nothing else.
\<close>

theorem empty_input_submits_nothing:
  assumes "sessionIdInput ui = [] \<or> deviceLabelInput ui = []"
  shows "snd (handleSubmit ui env) = []
       \<and> (\<not> isRunning ui \<longrightarrow>
            fst (handleSubmit ui env)
              = showStatus ui (if trim (sessionIdInput ui) = [] then ''Please enter a Session ID''
                               else ''Please enter a Device Label'') True
            \<and> status_class (statusDiv (fst (handleSubmit ui env))) = ''error'')"
proof -
  have "trim (sessionIdInput ui) = [] \<or> trim (deviceLabelInput ui) = []"
    using assms trim_Nil by auto
  then have "handleSubmit ui env =
     (if isRunning ui then (ui, [])
      else (showStatus ui (if trim (sessionIdInput ui) = [] then ''Please enter a Session ID''
                           else ''Please enter a Device Label'') True, []))"
    by (rule handleSubmit_blank)
  then show ?thesis by (simp add: showStatus_def)
qed

theorem empty_input_submits_nothing_witness:
  "sessionIdInput (initial_page [] ''device-1'') = []
   \<and> \<not> isRunning (initial_page [] ''device-1'')
   \<and> handleSubmit (initial_page [] ''device-1'') never_answers
       = (showStatus (initial_page [] ''device-1'') ''Please enter a Session ID'' True, [])
   \<and> deviceLabelInput (initial_page ''s1'' []) = []
   \<and> handleSubmit (initial_page ''s1'' []) never_answers
       = (showStatus (initial_page ''s1'' []) ''Please enter a Device Label'' True, [])"
proof -
  have t: "trim ''s1'' = ''s1''"
    by (simp add: trim_def is_whitespace_def)
  show ?thesis
    using empty_input_submits_nothing [of "initial_page [] ''device-1''" never_answers]
      empty_input_submits_nothing [of "initial_page ''s1'' []" never_answers]
    by (simp add: initial_page_def trim_Nil t prod_eq_iff)
qed

subsection \<open>C10: trimming\<close>

text \<open>
  Claim C10: submit and results trim the session id and the device label before use. An
  input of white space only is treated as an empty one: \<^verbatim>\<open>validateInputs\<close> returns
  \<^verbatim>\<open>null\<close> with the error status, \<^verbatim>\<open>handleSubmit\<close> makes no request, and \<^verbatim>\<open>handleResults\<close>
  shows its error and makes no request. Every \<^verbatim>\<open>submitFingerprint\<close> request carries the
  trimmed session id and device label, and every \<^verbatim>\<open>fetchResults\<close> request the trimmed
  session id; a submission whose sandbox run is fulfilled does send that request. The
  trimmed string is the input without a prefix and a suffix of white space, and it neither
  starts nor ends with white space.
\<close>

theorem inputs_are_trimmed:
  "(list_all is_whitespace (sessionIdInput ui) \<or> list_all is_whitespace (deviceLabelInput ui) \<longrightarrow>
      snd (validateInputs ui) = None \<and> snd (handleSubmit ui env) = []
      \<and> status_class (statusDiv (fst (validateInputs ui))) = ''error'')
   \<and> (list_all is_whitespace (sessionIdInput ui) \<longrightarrow>
      handleResults ui renv = (showStatus ui ''Please enter a Session ID first'' True, []))
   \<and> (SubmitFingerprint a b h \<in> set (snd (handleSubmit ui env)) \<longrightarrow>
      a = trim (sessionIdInput ui) \<and> b = trim (deviceLabelInput ui))
   \<and> (FetchResults a \<in> set (snd (handleResults ui renv)) \<longrightarrow> a = trim (sessionIdInput ui))
   \<and> (\<not> isRunning ui \<and> trim (sessionIdInput ui) \<noteq> [] \<and> trim (deviceLabelInput ui) \<noteq> []
        \<and> fingerprinter_js env = Done js
        \<and> promise (run (contentWindow env) (executeInSandbox js) (sandbox_events env)) = Fulfilled v
      \<longrightarrow> snd (handleSubmit ui env)
            = [FetchFingerprinterJs, ExecuteInSandbox js,
               SubmitFingerprint (trim (sessionIdInput ui)) (trim (deviceLabelInput ui)) v])
   \<and> (trim (sessionIdInput ui) \<noteq> [] \<longrightarrow>
        hd (snd (handleResults ui renv)) = FetchResults (trim (sessionIdInput ui)))
   \<and> (\<exists>pre post. s = pre @ trim s @ post
        \<and> list_all is_whitespace pre \<and> list_all is_whitespace post)
   \<and> (trim s \<noteq> [] \<longrightarrow> \<not> is_whitespace (hd (trim s)) \<and> \<not> is_whitespace (last (trim s)))"
proof -
  have blank: "list_all is_whitespace (sessionIdInput ui) \<or> list_all is_whitespace (deviceLabelInput ui)
      \<longrightarrow> snd (validateInputs ui) = None \<and> snd (handleSubmit ui env) = []
        \<and> status_class (statusDiv (fst (validateInputs ui))) = ''error''"
  proof
    assume "list_all is_whitespace (sessionIdInput ui) \<or> list_all is_whitespace (deviceLabelInput ui)"
    then have e: "trim (sessionIdInput ui) = [] \<or> trim (deviceLabelInput ui) = []"
      using trim_blank by auto
    show "snd (validateInputs ui) = None \<and> snd (handleSubmit ui env) = []
        \<and> status_class (statusDiv (fst (validateInputs ui))) = ''error''"
      using validateInputs_blank [OF e] handleSubmit_blank [OF e, of env]
      by (simp add: showStatus_def)
  qed
  have res: "list_all is_whitespace (sessionIdInput ui) \<longrightarrow>
      handleResults ui renv = (showStatus ui ''Please enter a Session ID first'' True, [])"
    by (auto simp: handleResults_def Let_def dest: trim_blank)
  have sent: "SubmitFingerprint a b h \<in> set (snd (handleSubmit ui env)) \<longrightarrow>
      a = trim (sessionIdInput ui) \<and> b = trim (deviceLabelInput ui)"
    using handleSubmit_sends_trimmed by blast
  have asked: "FetchResults a \<in> set (snd (handleResults ui renv)) \<longrightarrow> a = trim (sessionIdInput ui)"
    by (auto simp: handleResults_actions split: if_splits awaited.splits)
  have proceeds: "\<not> isRunning ui \<and> trim (sessionIdInput ui) \<noteq> [] \<and> trim (deviceLabelInput ui) \<noteq> []
        \<and> fingerprinter_js env = Done js
        \<and> promise (run (contentWindow env) (executeInSandbox js) (sandbox_events env)) = Fulfilled v
      \<longrightarrow> snd (handleSubmit ui env)
            = [FetchFingerprinterJs, ExecuteInSandbox js,
               SubmitFingerprint (trim (sessionIdInput ui)) (trim (deviceLabelInput ui)) v]"
    by (simp add: handleSubmit_actions after_fetch_actions)
  have first: "trim (sessionIdInput ui) \<noteq> [] \<longrightarrow>
        hd (snd (handleResults ui renv)) = FetchResults (trim (sessionIdInput ui))"
    by (simp add: handleResults_actions)
  have pads: "\<exists>pre post. s = pre @ trim s @ post
        \<and> list_all is_whitespace pre \<and> list_all is_whitespace post"
    using trim_decompose [of s] trim_pads [of s] by blast
  have ends: "trim s \<noteq> [] \<longrightarrow> \<not> is_whitespace (hd (trim s)) \<and> \<not> is_whitespace (last (trim s))"
    using trim_hd trim_last by blast
  from blank res sent asked proceeds first pads ends show ?thesis by blast
qed

theorem inputs_are_trimmed_witness:
  "list_all is_whitespace (sessionIdInput (initial_page ''   '' ''device-1''))
   \<and> snd (validateInputs (initial_page ''   '' ''device-1'')) = None
   \<and> snd (handleSubmit (initial_page ''   '' ''device-1'') never_answers) = []
   \<and> handleResults (initial_page ''   '' ''device-1'')
        \<lparr>results_response = Hangs, display_throws = None\<rparr>
       = (showStatus (initial_page ''   '' ''device-1'') ''Please enter a Session ID first'' True, [])
   \<and> trim ''  s1 '' = ''s1'' \<and> trim '' device 1  '' = ''device 1''
   \<and> snd (handleSubmit (initial_page ''  s1 '' '' device 1  '')
        (sandbox_answers ''js'' (JStr ''abc'')))
       = [FetchFingerprinterJs, ExecuteInSandbox ''js'',
          SubmitFingerprint ''s1'' ''device 1'' (JStr ''abc'')]
   \<and> hd (snd (handleResults (initial_page ''  s1 '' '' device 1  '')
        \<lparr>results_response = Hangs, display_throws = None\<rparr>)) = FetchResults ''s1''"
proof -
  let ?blank = "initial_page ''   '' ''device-1''"
  let ?padded = "initial_page ''  s1 '' '' device 1  ''"
  let ?env = "sandbox_answers ''js'' (JStr ''abc'')"
  let ?renv = "\<lparr>results_response = Hangs, display_throws = None\<rparr>"
  have w: "list_all is_whitespace (sessionIdInput ?blank)"
    by (simp add: initial_page_def is_whitespace_def)
  have t: "trim ''  s1 '' = ''s1''" "trim '' device 1  '' = ''device 1''"
    by (simp_all add: trim_def is_whitespace_def)
  have i: "sessionIdInput ?padded = ''  s1 ''" "deviceLabelInput ?padded = '' device 1  ''"
    "\<not> isRunning ?padded"
    by (simp_all add: initial_page_def)
  have ne: "trim (sessionIdInput ?padded) \<noteq> []" "trim (deviceLabelInput ?padded) \<noteq> []"
    by (simp_all add: i t)
  have e: "fingerprinter_js ?env = Done ''js''"
    by (simp add: sandbox_answers_def)
  have p: "promise (run (contentWindow ?env) (executeInSandbox ''js'') (sandbox_events ?env))
      = Fulfilled (JStr ''abc'')"
    by (simp add: sandbox_answers_def run_def executeInSandbox_def handleMessage_result)
  note blank = inputs_are_trimmed [of ?blank never_answers ?renv "''s1''" "''device 1''"
      "JStr ''abc''" "''js''" "JStr ''abc''" "''  s1 ''"]
  note padded = inputs_are_trimmed [of ?padded ?env ?renv "''s1''" "''device 1''"
      "JStr ''abc''" "''js''" "JStr ''abc''" "''  s1 ''"]
  have 1: "snd (validateInputs ?blank) = None" "snd (handleSubmit ?blank never_answers) = []"
    "handleResults ?blank ?renv = (showStatus ?blank ''Please enter a Session ID first'' True, [])"
    using blank w by blast+
  have 2: "snd (handleSubmit ?padded ?env)
      = [FetchFingerprinterJs, ExecuteInSandbox ''js'',
         SubmitFingerprint (trim (sessionIdInput ?padded)) (trim (deviceLabelInput ?padded))
           (JStr ''abc'')]"
    using padded i(3) ne e p by blast
  have 3: "hd (snd (handleResults ?padded ?renv)) = FetchResults (trim (sessionIdInput ?padded))"
    using padded ne(1) by blast
  show ?thesis using w 1 2 3 t by (simp only: i simp_thms)
qed

section \<open>Properties of the scoring engine\<close>

lemma device_points_unit: "0 \<le> device_points recs d \<and> device_points recs d \<le> 1"
  by (simp add: device_points_def)

lemma sum_points_bounds:
  "0 \<le> sum_list (map (device_points recs) ds)
   \<and> sum_list (map (device_points recs) ds) \<le> of_nat (length ds)"
proof (induction ds)
  case Nil
  then show ?case by simp
next
  case (Cons d ds)
  then show ?case using device_points_unit [of recs d] by simp
qed

text \<open>The worked cases of the spec's section 8, evaluated on the definitions.\<close>

lemma score_examples:
  "session_score [\<lparr>device_label = ''d1'', fingerprint_hash = ''A''\<rparr>,
                  \<lparr>device_label = ''d2'', fingerprint_hash = ''A''\<rparr>] = 3 / 4"
  "session_score [\<lparr>device_label = ''d1'', fingerprint_hash = ''A''\<rparr>,
                  \<lparr>device_label = ''d1'', fingerprint_hash = ''B''\<rparr>] = 7 / 10"
  "session_score [\<lparr>device_label = ''d1'', fingerprint_hash = ''A''\<rparr>,
                  \<lparr>device_label = ''d2'', fingerprint_hash = ''A''\<rparr>,
                  \<lparr>device_label = ''d3'', fingerprint_hash = ''A''\<rparr>] = 0"
  by (simp_all add: session_score_def devices_def device_points_def collision_rule_def
      overlapDevices_def label_set_def hash_set_def fragmentation_score_def Let_def)

subsection \<open>C9: the score lies in the unit interval\<close>

text \<open>
  Claim C9: for every sequence of session records the score lies between 0 and 1, and for
  the empty sequence (no device) it is 0.
\<close>

theorem session_score_unit_interval:
  "0 \<le> session_score recs \<and> session_score recs \<le> 1 \<and> session_score [] = 0"
proof -
  let ?ds = "devices recs"
  have e: "session_score [] = 0"
    by (simp add: session_score_def devices_def)
  show ?thesis
  proof (cases "?ds = []")
    case True
    then show ?thesis using e by (simp add: session_score_def)
  next
    case False
    then have n: "0 < (of_nat (length ?ds) :: rat)" by simp
    have b: "0 \<le> sum_list (map (device_points recs) ?ds)"
      "sum_list (map (device_points recs) ?ds) \<le> of_nat (length ?ds)"
      using sum_points_bounds [of recs ?ds] by simp_all
    have "0 \<le> sum_list (map (device_points recs) ?ds) / of_nat (length ?ds)"
      using b(1) n by simp
    moreover have "sum_list (map (device_points recs) ?ds) / of_nat (length ?ds) \<le> 1"
      using b(2) n by (simp add: divide_le_eq)
    ultimately show ?thesis using False e by (simp add: session_score_def Let_def)
  qed
qed

end
